theory Spec2Isabelle
  imports Main
begin

section \<open>Values, configuration and errors\<close>

text \<open>
  The gateway of \<^verbatim>\<open>modules/external_io_operations.py\<close> reads a nested
  dictionary \<^verbatim>\<open>Dict[str, Dict[str, Any]]\<close>. The values it reads are used as
  conditions (Python truthiness) and as operands of string concatenation, so a value is one of
  the Python scalars below. A missing key is a \<^verbatim>\<open>KeyError\<close>.
\<close>

datatype pyval = PNone | PBool bool | PInt int | PStr string

fun truthy :: "pyval \<Rightarrow> bool" where
  "truthy PNone = False"
| "truthy (PBool b) = b"
| "truthy (PInt i) = (i \<noteq> 0)"
| "truthy (PStr s) = (s \<noteq> [])"

type_synonym settings = "string \<rightharpoonup> pyval"
type_synonym config = "string \<rightharpoonup> settings"

text \<open>
  Exceptions raised by the module itself and by the interpreter, plus one constructor for whatever
  an external library (ipfshttpclient, pinatapy, the short-url module, the operating system)
  raises. All of them are subclasses of \<^verbatim>\<open>Exception\<close>, which is what every handler
  of the module catches.
\<close>

datatype error =
    KeyError string
  | TypeError string
  | ValueError "string list"
  | UnboundLocalError string
  | FileNotFoundError string
  | IsADirectoryError string
  | PyException string
  | CollaboratorError string

definition sec_get :: "settings \<Rightarrow> string \<Rightarrow> error + pyval" where
  "sec_get sec k = (case sec k of None \<Rightarrow> Inl (KeyError k) | Some v \<Rightarrow> Inr v)"

definition cfg_get :: "config \<Rightarrow> string \<Rightarrow> string \<Rightarrow> error + pyval" where
  "cfg_get cfg s k = (case cfg s of None \<Rightarrow> Inl (KeyError s) | Some sec \<Rightarrow> sec_get sec k)"

text \<open>\<^verbatim>\<open>a + v\<close> for a string \<open>a\<close>: a \<^verbatim>\<open>TypeError\<close> unless \<open>v\<close> is a string.\<close>

definition str_add :: "string \<Rightarrow> pyval \<Rightarrow> error + string" where
  "str_add a v =
     (case v of PStr b \<Rightarrow> Inr (a @ b) | _ \<Rightarrow> Inl (TypeError ''can only concatenate str to str''))"

text \<open>\<^verbatim>\<open>*s\<close> for a string \<open>s\<close>: one positional argument per character.\<close>

definition star :: "string \<Rightarrow> string list" where
  "star s = map (\<lambda>c. [c]) s"

section \<open>The world the gateway acts on\<close>

datatype node = RegularFile | Directory

datatype event =
    LogInfo string
  | LogError string error
  | IpfsAdd string
  | UpdateShortUrl string string
  | Popen string
  | FileWrite string string
  | PinFile pyval pyval string

text \<open>
  A thread object as \<^verbatim>\<open>threading.Thread(target=self._pin_to_pinata, args=...)\<close>
  builds it: the worker's configuration settings (the bound \<^verbatim>\<open>self\<close>) and the object
  passed as \<^verbatim>\<open>args\<close>, here a string.
\<close>

datatype thread = Thread settings string

text \<open>
  The state threaded through the calls: the gateway's \<^verbatim>\<open>ipfs_hash\<close> attribute, the
  files on disk, the calls and log records made so far (oldest first), and the threads started.
\<close>

record state =
  ipfs_hash :: "string option"
  fs :: "string \<rightharpoonup> node"
  trace :: "event list"
  threads :: "thread list"

text \<open>
  The external collaborators, as stubs: the local IPFS node
  (\<^verbatim>\<open>ipfshttpclient.connect().add(filename)["Hash"]\<close>), the short-url updater, a shell
  process started by \<^verbatim>\<open>subprocess.Popen\<close> whose first output line is read and decoded,
  and the Pinata client.
\<close>

record env =
  ipfs_add :: "string \<Rightarrow> error + string"
  update_short_url :: "string \<Rightarrow> string \<Rightarrow> config \<Rightarrow> error option"
  popen_readline :: "string \<Rightarrow> error + string"
  pin_file_to_ipfs :: "pyval \<Rightarrow> pyval \<Rightarrow> string \<Rightarrow> error option"

definition emit :: "event \<Rightarrow> state \<Rightarrow> state" where
  "emit e s = s\<lparr>trace := trace s @ [e]\<rparr>"

definition spawn :: "thread \<Rightarrow> state \<Rightarrow> state" where
  "spawn t s = s\<lparr>threads := threads s @ [t]\<rparr>"

text \<open>\<^verbatim>\<open>ExternalIoGateway.__init__\<close>: the hash starts unset.\<close>

definition ExternalIoGateway_init :: "(string \<rightharpoonup> node) \<Rightarrow> state" where
  "ExternalIoGateway_init disk = \<lparr>ipfs_hash = None, fs = disk, trace = [], threads = []\<rparr>"

text \<open>\<^verbatim>\<open>os.remove\<close>: removes a regular file, raises on a missing path or a directory.\<close>

definition os_remove :: "string \<Rightarrow> state \<Rightarrow> error option \<times> state" where
  "os_remove p s =
     (case fs s p of
        None \<Rightarrow> (Some (FileNotFoundError p), s)
      | Some Directory \<Rightarrow> (Some (IsADirectoryError p), s)
      | Some RegularFile \<Rightarrow> (None, s\<lparr>fs := (fs s)(p := None)\<rparr>))"

text \<open>
  \<^verbatim>\<open>open(path, "w")\<close> followed by a write, for a path directly inside directory
  \<open>dir\<close>: the directory has to exist and the path must not be a directory itself.
\<close>

definition write_file :: "string \<Rightarrow> string \<Rightarrow> string \<Rightarrow> state \<Rightarrow> error option \<times> state" where
  "write_file dir p content s =
     (if fs s dir \<noteq> Some Directory then (Some (FileNotFoundError p), s)
      else if fs s p = Some Directory then (Some (IsADirectoryError p), s)
      else (None, emit (FileWrite p content) (s\<lparr>fs := (fs s)(p \<mapsto> RegularFile)\<rparr>)))"

section \<open>The media preprocessor\<close>

text \<open>
  \<^verbatim>\<open>filename[:-4] + "_intro" + filename[-4:]\<close>. For a name shorter than four
  characters the first slice is empty and the second is the whole name, which is what the
  truncating subtraction gives.
\<close>

definition concat_filename :: "string \<Rightarrow> string" where
  "concat_filename filename =
     take (length filename - 4) filename @ ''_intro'' @ drop (length filename - 4) filename"

definition concatenate :: "env \<Rightarrow> string \<Rightarrow> string \<Rightarrow> state \<Rightarrow> (error + string) \<times> state" where
  "concatenate env dirname filename s =
     (let s0 = emit (LogInfo ''Concatenating videos'') s in
      if fs s0 (dirname @ ''/media/intro.mp4'') = None
      then (Inl (PyException ''Intro file doesn't exist!''), s0)
      else
        (let concat_string =
               ''file '' @ [CHR 0x27] @ dirname @ ''/media/intro.mp4'' @ [CHR 0x27, CHR 0x0A]
               @ ''file '' @ [CHR 0x27] @ filename @ [CHR 0x27]
         in case write_file (dirname @ ''/output'') (dirname @ ''/output/vidlist.txt'')
                   concat_string s0 of
              (Some e, s1) \<Rightarrow> (Inl e, s1)
            | (None, s1) \<Rightarrow>
                (let concat_command =
                       ''ffmpeg -f concat -safe 0 -i '' @ dirname
                       @ ''/output/vidlist.txt -c copy '' @ concat_filename filename;
                     s2 = emit (Popen (''exec '' @ concat_command)) s1
                 in case popen_readline env (''exec '' @ concat_command) of
                      Inl e \<Rightarrow> (Inl e, s2)
                    | Inr out \<Rightarrow> (Inr (concat_filename filename), s2))))"

section \<open>The workers\<close>

subsection \<open>IpfsWorker\<close>

definition IpfsWorker_post ::
  "env \<Rightarrow> config \<Rightarrow> string \<Rightarrow> string \<Rightarrow> state \<Rightarrow> error option \<times> state" where
  "IpfsWorker_post env cfg filename keyword s =
     (case ipfs_add env filename of
        Inl e \<Rightarrow> (Some e, emit (IpfsAdd filename) s)
      | Inr h \<Rightarrow>
          (let s1 = emit (LogInfo (''Published to IPFS, hash: '' @ h))
                      ((emit (IpfsAdd filename) s)\<lparr>ipfs_hash := Some h\<rparr>)
           in if keyword \<noteq> []
              then (update_short_url env keyword h cfg,
                    emit (UpdateShortUrl keyword h) (emit (LogInfo ''Updating URL'') s1))
              else (None, s1)))"

subsection \<open>RobonomicsWorker\<close>

text \<open>The constructor keeps \<^verbatim>\<open>config["transaction"]\<close>.\<close>

definition RobonomicsWorker_init :: "config \<Rightarrow> error + settings" where
  "RobonomicsWorker_init cfg =
     (case cfg ''transaction'' of None \<Rightarrow> Inl (KeyError ''transaction'') | Some sec \<Rightarrow> Inr sec)"

text \<open>
  \<^verbatim>\<open>post\<close> takes the worker's settings and, through its context, the gateway's hash and
  whole configuration. \<^verbatim>\<open>raise ValueError(*"ipfs_hash is None")\<close> passes the message
  character by character. The command line is built left to right, each configuration value
  looked up just before it is appended.
\<close>

definition RobonomicsWorker_post ::
  "env \<Rightarrow> settings \<Rightarrow> config \<Rightarrow> state \<Rightarrow> error option \<times> state" where
  "RobonomicsWorker_post env wcfg cfg s =
     (case ipfs_hash s of
        None \<Rightarrow> (Some (ValueError (star ''ipfs_hash is None'')), s)
      | Some h \<Rightarrow>
         (case sec_get wcfg ''path_to_robonomics_file'' of
            Inl e \<Rightarrow> (Some e, s)
          | Inr p \<Rightarrow>
         (case str_add (''echo '' @ [CHR 0x22] @ h @ [CHR 0x22] @ '' | '') p of
            Inl e \<Rightarrow> (Some e, s)
          | Inr a \<Rightarrow>
         (case sec_get wcfg ''remote'' of
            Inl e \<Rightarrow> (Some e, s)
          | Inr r \<Rightarrow>
         (case str_add (a @ '' io write datalog '') r of
            Inl e \<Rightarrow> (Some e, s)
          | Inr b \<Rightarrow>
         (case cfg_get cfg ''camera'' ''key'' of
            Inl e \<Rightarrow> (Some e, s)
          | Inr k \<Rightarrow>
         (case str_add (b @ '' -s '') k of
            Inl e \<Rightarrow> (Some e, s)
          | Inr program \<Rightarrow>
         (case popen_readline env program of
            Inl e \<Rightarrow> (Some e, emit (Popen program) s)
          | Inr out \<Rightarrow>
              (None, emit (LogInfo (''Published data to chain. Transaction hash is '' @ out))
                       (emit (Popen program) s))))))))))"

subsection \<open>PinataWorker\<close>

definition PinataWorker_init :: "config \<Rightarrow> error + settings" where
  "PinataWorker_init cfg =
     (case cfg ''pinata'' of None \<Rightarrow> Inl (KeyError ''pinata'') | Some sec \<Rightarrow> Inr sec)"

text \<open>
  \<^verbatim>\<open>_pin_to_pinata(self, filename)\<close>, returning its outcome and the calls and log
  records it made.
\<close>

definition pin_to_pinata :: "env \<Rightarrow> settings \<Rightarrow> string \<Rightarrow> error option \<times> event list" where
  "pin_to_pinata env wcfg filename =
     (case sec_get wcfg ''pinata_api'' of
        Inl e \<Rightarrow> (Some e, [])
      | Inr pinata_api \<Rightarrow>
     (case sec_get wcfg ''pinata_secret_api'' of
        Inl e \<Rightarrow> (Some e, [])
      | Inr pinata_secret_api \<Rightarrow>
          if truthy pinata_api \<and> truthy pinata_secret_api then
            (case pin_file_to_ipfs env pinata_api pinata_secret_api filename of
               Some e \<Rightarrow> (Some e, [PinFile pinata_api pinata_secret_api filename])
             | None \<Rightarrow>
                 (None, [PinFile pinata_api pinata_secret_api filename,
                         LogInfo (''File '' @ filename @ '' published to Pinata'')]))
          else (None, [])))"

text \<open>
  \<^verbatim>\<open>post\<close> logs, builds the thread with \<^verbatim>\<open>args=filename\<close> and starts it; it
  does not wait for it.
\<close>

definition PinataWorker_post :: "settings \<Rightarrow> string \<Rightarrow> state \<Rightarrow> error option \<times> state" where
  "PinataWorker_post wcfg filename s =
     (None, spawn (Thread wcfg filename)
              (emit (LogInfo ''Camera is sending file to Pinata in the background'') s))"

text \<open>
  What the started thread does: \<^verbatim>\<open>Thread.run\<close> calls
  \<^verbatim>\<open>self._target(*self._args)\<close>. The target is a bound method with one parameter
  besides \<^verbatim>\<open>self\<close>, so any number of positional arguments other than one is a
  \<^verbatim>\<open>TypeError\<close> raised inside the thread (its message is shortened here: Python
  appends the number of arguments given, or names the missing one).
\<close>

definition thread_run :: "env \<Rightarrow> thread \<Rightarrow> error option \<times> event list" where
  "thread_run env t =
     (case t of Thread wcfg a \<Rightarrow>
        (case star a of
           [filename] \<Rightarrow> pin_to_pinata env wcfg filename
         | _ \<Rightarrow> (Some (TypeError ''_pin_to_pinata() takes 2 positional arguments''), [])))"

section \<open>The gateway\<close>

text \<open>A \<^verbatim>\<open>try\<close> block whose handler logs the exception and goes on.\<close>

definition catch :: "string \<Rightarrow> error option \<times> state \<Rightarrow> state" where
  "catch msg r = (case fst r of None \<Rightarrow> snd r | Some e \<Rightarrow> emit (LogError msg e) (snd r))"

definition clean_after_record ::
  "config \<Rightarrow> string \<Rightarrow> string \<Rightarrow> string \<Rightarrow> state \<Rightarrow> error option \<times> state" where
  "clean_after_record cfg filename qrpic non_concatenated_filename s =
     (case os_remove filename (emit (LogInfo ''Removing files'') s) of
        (Some e, s1) \<Rightarrow> (Some e, s1)
      | (None, s1) \<Rightarrow>
     (case os_remove qrpic s1 of
        (Some e, s2) \<Rightarrow> (Some e, s2)
      | (None, s2) \<Rightarrow>
     (case cfg_get cfg ''intro'' ''enable'' of
        Inl e \<Rightarrow> (Some e, s2)
      | Inr v \<Rightarrow> if truthy v then os_remove non_concatenated_filename s2 else (None, s2))))"

text \<open>The body of the \<^verbatim>\<open>try\<close> of lines 81 to 87.\<close>

definition publish_body ::
  "env \<Rightarrow> config \<Rightarrow> string \<Rightarrow> string \<Rightarrow> state \<Rightarrow> error option \<times> state" where
  "publish_body env cfg filename keyword s =
     (case IpfsWorker_post env cfg filename keyword s of
        (Some e, s1) \<Rightarrow> (Some e, s1)
      | (None, s1) \<Rightarrow>
         (case cfg_get cfg ''pinata'' ''enable'' of
            Inl e \<Rightarrow> (Some e, s1)
          | Inr v \<Rightarrow>
              if truthy v then
                (case PinataWorker_init cfg of
                   Inl e \<Rightarrow> (Some e, s1)
                 | Inr w \<Rightarrow> PinataWorker_post w filename s1)
              else (None, s1)))"

text \<open>
  The body of the \<^verbatim>\<open>try\<close> of line 96. The local \<^verbatim>\<open>non_concatenated_filename\<close>
  is bound only when the intro branch ran; reading it unbound raises while the arguments of the
  call are evaluated, inside the \<^verbatim>\<open>try\<close>.
\<close>

definition cleanup_body ::
  "config \<Rightarrow> string \<Rightarrow> string \<Rightarrow> string option \<Rightarrow> state \<Rightarrow> error option \<times> state" where
  "cleanup_body cfg filename qrpic non_concatenated_filename s =
     (case non_concatenated_filename of
        None \<Rightarrow> (Some (UnboundLocalError ''non_concatenated_filename''), s)
      | Some n \<Rightarrow> clean_after_record cfg filename qrpic n s)"

text \<open>The body of the \<^verbatim>\<open>try\<close> of lines 102 and 103.\<close>

definition datalog_body :: "env \<Rightarrow> config \<Rightarrow> state \<Rightarrow> error option \<times> state" where
  "datalog_body env cfg s =
     (case RobonomicsWorker_init cfg of
        Inl e \<Rightarrow> (Some e, s)
      | Inr w \<Rightarrow> RobonomicsWorker_post env w cfg s)"

text \<open>
  \<^verbatim>\<open>ExternalIoGateway.send\<close>. The result is \<open>Inl\<close> for an exception that leaves the
  method, \<open>Inr None\<close> for Python's \<^verbatim>\<open>None\<close> and \<open>Inr (Some h)\<close> for a hash.
  In the intro branch the source assigns \<^verbatim>\<open>filename = filename\<close>, so the working name
  stays what it was and only \<^verbatim>\<open>non_concatenated_filename\<close> becomes bound. The
  \<^verbatim>\<open>return self.ipfs_hash\<close> is inside the last \<^verbatim>\<open>if\<close>; on every other path
  the method falls off its end.
\<close>

definition send ::
  "env \<Rightarrow> config \<Rightarrow> string \<Rightarrow> string \<Rightarrow> string \<Rightarrow> state \<Rightarrow> (error + string option) \<times> state" where
  "send env cfg filename keyword qrpic s =
     (case cfg_get cfg ''intro'' ''enable'' of
        Inl e \<Rightarrow> (Inl e, s)
      | Inr intro \<Rightarrow>
     (let non_concatenated_filename = (if truthy intro then Some filename else None) in
      case cfg_get cfg ''external_io'' ''enable'' of
        Inl e \<Rightarrow> (Inl e, s)
      | Inr ext \<Rightarrow>
     (let s1 = (if truthy ext
                then catch ''Error while publishing to IPFS or pinning to pinata. Error: ''
                       (publish_body env cfg filename keyword s)
                else s) in
      case cfg_get cfg ''general'' ''delete_after_record'' of
        Inl e \<Rightarrow> (Inl e, s1)
      | Inr del \<Rightarrow>
     (let s2 = (if truthy del \<and> qrpic \<noteq> []
                then catch ''Error while deleting file, error: ''
                       (cleanup_body cfg filename qrpic non_concatenated_filename s1)
                else s1) in
      case cfg_get cfg ''datalog'' ''enable'' of
        Inl e \<Rightarrow> (Inl e, s2)
      | Inr datalog \<Rightarrow>
          if truthy datalog then
            (case cfg_get cfg ''external_io'' ''enable'' of
               Inl e \<Rightarrow> (Inl e, s2)
             | Inr ext2 \<Rightarrow>
                 if truthy ext2 then
                   (let s3 = catch ''Error while sending IPFS hash to chain, error: ''
                               (datalog_body env cfg s2)
                    in (Inr (ipfs_hash s3), s3))
                 else (Inr None, s2))
          else (Inr None, s2)))))"

section \<open>Observations on a run\<close>

text \<open>The four flags that \<^verbatim>\<open>send\<close> reads outside its \<^verbatim>\<open>try\<close> blocks.\<close>

definition flags_present :: "config \<Rightarrow> bool" where
  "flags_present cfg =
     (\<not> isl (cfg_get cfg ''intro'' ''enable'') \<and>
      \<not> isl (cfg_get cfg ''external_io'' ''enable'') \<and>
      \<not> isl (cfg_get cfg ''general'' ''delete_after_record'') \<and>
      \<not> isl (cfg_get cfg ''datalog'' ''enable''))"

text \<open>The command lines handed to the shell, the files handed to the IPFS node.\<close>

fun popen_calls :: "event list \<Rightarrow> string list" where
  "popen_calls [] = []"
| "popen_calls (Popen c # es) = c # popen_calls es"
| "popen_calls (_ # es) = popen_calls es"

fun ipfs_calls :: "event list \<Rightarrow> string list" where
  "ipfs_calls [] = []"
| "ipfs_calls (IpfsAdd f # es) = f # ipfs_calls es"
| "ipfs_calls (_ # es) = ipfs_calls es"

text \<open>Log records and file writes that only \<^verbatim>\<open>concatenate\<close> makes.\<close>

fun is_concat_event :: "event \<Rightarrow> bool" where
  "is_concat_event (LogInfo m) = (m = ''Concatenating videos'')"
| "is_concat_event (FileWrite p c) = True"
| "is_concat_event _ = False"

text \<open>Log records that only the cleanup stage makes.\<close>

fun is_cleanup_event :: "event \<Rightarrow> bool" where
  "is_cleanup_event (LogInfo m) = (m = ''Removing files'')"
| "is_cleanup_event (LogError m e) = (m = ''Error while deleting file, error: '')"
| "is_cleanup_event _ = False"

text \<open>A flag that is present and true as a condition.\<close>

definition flag_on :: "config \<Rightarrow> string \<Rightarrow> string \<Rightarrow> bool" where
  "flag_on cfg sec k = (case cfg_get cfg sec k of Inl e \<Rightarrow> False | Inr v \<Rightarrow> truthy v)"

text \<open>What a run added to the trace, given the state before and the state after.\<close>

definition new_events :: "state \<Rightarrow> state \<Rightarrow> event list" where
  "new_events s s' = drop (length (trace s)) (trace s')"

text \<open>
  The exception \<^verbatim>\<open>os.remove\<close> raises for a path it cannot remove, and the exception that
  ends \<^verbatim>\<open>clean_after_record\<close> when it is called with the working file as its third
  argument and the intro flag on: the first removal that fails, which at the latest is the
  second removal of the working file.
\<close>

definition remove_error :: "string \<Rightarrow> (string \<rightharpoonup> node) \<Rightarrow> error" where
  "remove_error p disk =
     (case disk p of Some Directory \<Rightarrow> IsADirectoryError p | _ \<Rightarrow> FileNotFoundError p)"

definition cleanup_error :: "string \<Rightarrow> string \<Rightarrow> (string \<rightharpoonup> node) \<Rightarrow> error" where
  "cleanup_error f q disk =
     (if disk f = Some RegularFile
      then (if (disk(f := None)) q = Some RegularFile then FileNotFoundError f
            else remove_error q (disk(f := None)))
      else remove_error f disk)"

text \<open>The messages of the three handlers of \<^verbatim>\<open>send\<close> that can be reached.\<close>

abbreviation (input) PUB :: string where
  "PUB \<equiv> ''Error while publishing to IPFS or pinning to pinata. Error: ''"

abbreviation (input) DEL :: string where
  "DEL \<equiv> ''Error while deleting file, error: ''"

abbreviation (input) LED :: string where
  "LED \<equiv> ''Error while sending IPFS hash to chain, error: ''"

section \<open>Concrete configurations and collaborators\<close>

text \<open>
  A complete configuration with the five flags as parameters (intro, external_io, pinata, datalog,
  delete_after_record) and fixed credentials.
\<close>

definition example_config :: "bool \<Rightarrow> bool \<Rightarrow> bool \<Rightarrow> bool \<Rightarrow> bool \<Rightarrow> config" where
  "example_config intro ext pinata datalog del =
     [''intro'' \<mapsto> [''enable'' \<mapsto> PBool intro],
      ''external_io'' \<mapsto> [''enable'' \<mapsto> PBool ext],
      ''pinata'' \<mapsto> [''enable'' \<mapsto> PBool pinata, ''pinata_api'' \<mapsto> PStr ''key'',
                      ''pinata_secret_api'' \<mapsto> PStr ''secret''],
      ''datalog'' \<mapsto> [''enable'' \<mapsto> PBool datalog],
      ''general'' \<mapsto> [''delete_after_record'' \<mapsto> PBool del],
      ''transaction'' \<mapsto> [''path_to_robonomics_file'' \<mapsto> PStr ''./robonomics'',
                           ''remote'' \<mapsto> PStr []],
      ''camera'' \<mapsto> [''key'' \<mapsto> PStr ''seed'']]"

text \<open>
  The configuration of the scenario with intro off, external_io on, pinata off, datalog on and
  delete_after_record off, for any ledger tool path, remote and signing key.
\<close>

definition scenario_config :: "string \<Rightarrow> string \<Rightarrow> string \<Rightarrow> config" where
  "scenario_config path remote key =
     [''intro'' \<mapsto> [''enable'' \<mapsto> PBool False],
      ''external_io'' \<mapsto> [''enable'' \<mapsto> PBool True],
      ''pinata'' \<mapsto> [''enable'' \<mapsto> PBool False],
      ''datalog'' \<mapsto> [''enable'' \<mapsto> PBool True],
      ''general'' \<mapsto> [''delete_after_record'' \<mapsto> PBool False],
      ''transaction'' \<mapsto> [''path_to_robonomics_file'' \<mapsto> PStr path, ''remote'' \<mapsto> PStr remote],
      ''camera'' \<mapsto> [''key'' \<mapsto> PStr key]]"

text \<open>A configuration that lacks the \<^verbatim>\<open>general\<close> section.\<close>

definition config_without_general :: config where
  "config_without_general =
     [''intro'' \<mapsto> [''enable'' \<mapsto> PBool False],
      ''external_io'' \<mapsto> [''enable'' \<mapsto> PBool True],
      ''pinata'' \<mapsto> [''enable'' \<mapsto> PBool False],
      ''datalog'' \<mapsto> [''enable'' \<mapsto> PBool True]]"

text \<open>
  Collaborators: one where everything succeeds and the node answers \<^verbatim>\<open>Qm123\<close>, one
  where the node is unreachable, and one where the node stores \<^verbatim>\<open>a.mp4\<close> only.
\<close>

definition stub_env :: env where
  "stub_env = \<lparr>ipfs_add = (\<lambda>f. Inr ''Qm123''), update_short_url = (\<lambda>k h c. None),
      popen_readline = (\<lambda>c. Inr ''0xabc''), pin_file_to_ipfs = (\<lambda>a b f. None)\<rparr>"

definition offline_env :: env where
  "offline_env = \<lparr>ipfs_add = (\<lambda>f. Inl (CollaboratorError ''StorageError'')),
      update_short_url = (\<lambda>k h c. None),
      popen_readline = (\<lambda>c. Inr ''0xabc''), pin_file_to_ipfs = (\<lambda>a b f. None)\<rparr>"

definition flaky_env :: env where
  "flaky_env = \<lparr>ipfs_add = (\<lambda>f. if f = ''a.mp4'' then Inr ''Qm1''
                               else Inl (CollaboratorError ''StorageError'')),
      update_short_url = (\<lambda>k h c. None),
      popen_readline = (\<lambda>c. Inr ''0xabc''), pin_file_to_ipfs = (\<lambda>a b f. None)\<rparr>"

section \<open>Basic facts\<close>

lemma popen_calls_append: "popen_calls (xs @ ys) = popen_calls xs @ popen_calls ys"
  by (induction xs rule: popen_calls.induct) simp_all

lemma ipfs_calls_append: "ipfs_calls (xs @ ys) = ipfs_calls xs @ ipfs_calls ys"
  by (induction xs rule: ipfs_calls.induct) simp_all

lemma emit_sel:
  "trace (emit e s) = trace s @ [e]" "ipfs_hash (emit e s) = ipfs_hash s"
  "fs (emit e s) = fs s" "threads (emit e s) = threads s"
  by (simp_all add: emit_def)

lemma spawn_sel:
  "trace (spawn t s) = trace s" "ipfs_hash (spawn t s) = ipfs_hash s"
  "fs (spawn t s) = fs s" "threads (spawn t s) = threads s @ [t]"
  by (simp_all add: spawn_def)

lemma new_events_append: "trace s' = trace s @ tr \<Longrightarrow> new_events s s' = tr"
  by (simp add: new_events_def)

lemma new_events_self: "new_events s s = []"
  by (simp add: new_events_def)

lemma flag_on_eq: "cfg_get cfg a b = Inr v \<Longrightarrow> flag_on cfg a b = truthy v"
  by (simp add: flag_on_def)

lemma flags_presentD:
  assumes "flags_present cfg"
  obtains vi ve vd vl where
    "cfg_get cfg ''intro'' ''enable'' = Inr vi"
    "cfg_get cfg ''external_io'' ''enable'' = Inr ve"
    "cfg_get cfg ''general'' ''delete_after_record'' = Inr vd"
    "cfg_get cfg ''datalog'' ''enable'' = Inr vl"
  using assms unfolding flags_present_def
  by (auto simp: isl_def split: sum.splits) (metis sum.exhaust)

lemma cleanup_events_quiet:
  "list_all is_cleanup_event tr \<Longrightarrow>
   popen_calls tr = [] \<and> ipfs_calls tr = [] \<and> filter is_concat_event tr = []"
  by (induction tr) (auto elim: is_cleanup_event.elims)

lemma concat_filename_differs: "concat_filename f \<noteq> f"
proof
  assume "concat_filename f = f"
  then have "length (concat_filename f) = length f" by simp
  then show False by (simp add: concat_filename_def)
qed

lemma concatenate_logs:
  "\<exists>tr. trace (snd (concatenate env d f s)) = trace s @ LogInfo ''Concatenating videos'' # tr"
  by (auto simp: concatenate_def write_file_def emit_sel Let_def
      split: prod.splits option.splits sum.splits)

section \<open>The shape of send\<close>

text \<open>An exception leaves \<^verbatim>\<open>send\<close> exactly when one of its four flags is missing.\<close>

lemma send_raises_iff: "isl (fst (send env cfg filename keyword qrpic s)) = (\<not> flags_present cfg)"
  by (simp add: send_def flags_present_def Let_def split: sum.splits)

text \<open>With the four flags present, \<^verbatim>\<open>send\<close> is its three stages in sequence.\<close>

lemma send_unfold:
  assumes "cfg_get cfg ''intro'' ''enable'' = Inr vi"
    "cfg_get cfg ''external_io'' ''enable'' = Inr ve"
    "cfg_get cfg ''general'' ''delete_after_record'' = Inr vd"
    "cfg_get cfg ''datalog'' ''enable'' = Inr vl"
  shows "send env cfg f k q s =
    (let s1 = (if truthy ve then catch PUB (publish_body env cfg f k s) else s);
         s2 = (if truthy vd \<and> q \<noteq> []
               then catch DEL (cleanup_body cfg f q (if truthy vi then Some f else None) s1)
               else s1)
     in if truthy vl \<and> truthy ve
        then (Inr (ipfs_hash (catch LED (datalog_body env cfg s2))),
              catch LED (datalog_body env cfg s2))
        else (Inr None, s2))"
  by (simp add: send_def Let_def assms)

subsection \<open>The publication stage\<close>

lemma publish_stage_fail:
  assumes "ipfs_add env f = Inl e"
  shows "catch PUB (publish_body env cfg f k s) = emit (LogError PUB e) (emit (IpfsAdd f) s)"
  by (simp add: catch_def publish_body_def IpfsWorker_post_def assms)

lemma publish_stage_frame:
  "fs (catch PUB (publish_body env cfg f k s)) = fs s"
  by (auto simp: catch_def publish_body_def IpfsWorker_post_def PinataWorker_post_def emit_sel
      spawn_sel Let_def split: sum.splits option.splits prod.splits)

lemma publish_stage_ok:
  assumes "ipfs_add env f = Inr h"
  shows "ipfs_hash (catch PUB (publish_body env cfg f k s)) = Some h"
  using assms
  by (auto simp: catch_def publish_body_def IpfsWorker_post_def PinataWorker_post_def emit_sel
      spawn_sel Let_def split: sum.splits option.splits prod.splits)

lemma publish_stage_trace:
  "\<exists>tr. trace (catch PUB (publish_body env cfg f k s)) = trace s @ IpfsAdd f # tr \<and>
        popen_calls tr = [] \<and> ipfs_calls tr = [] \<and> filter is_concat_event tr = [] \<and>
        filter is_cleanup_event tr = []"
  by (auto simp: catch_def publish_body_def IpfsWorker_post_def PinataWorker_post_def emit_sel
      spawn_sel Let_def split: sum.splits option.splits prod.splits)

subsection \<open>The cleanup stage\<close>

lemma os_remove_frame:
  "os_remove p s = (r, s') \<Longrightarrow>
   ipfs_hash s' = ipfs_hash s \<and> trace s' = trace s \<and> threads s' = threads s"
  by (auto simp: os_remove_def split: option.splits node.splits)

lemma clean_after_record_frame:
  assumes "clean_after_record cfg f q n s = (r, s')"
  shows "ipfs_hash s' = ipfs_hash s \<and> threads s' = threads s \<and>
         trace s' = trace s @ [LogInfo ''Removing files'']"
  using assms
  by (auto simp: clean_after_record_def emit_sel
      split: prod.splits option.splits sum.splits if_splits dest!: os_remove_frame)

lemma cleanup_stage_frame:
  "ipfs_hash (catch DEL (cleanup_body cfg f q nc s)) = ipfs_hash s \<and>
   threads (catch DEL (cleanup_body cfg f q nc s)) = threads s"
proof (cases "cleanup_body cfg f q nc s")
  case (Pair r t)
  show ?thesis
  proof (cases nc)
    case None
    with Pair show ?thesis
      by (auto simp: cleanup_body_def catch_def emit_sel)
  next
    case (Some n)
    with Pair have "clean_after_record cfg f q n s = (r, t)"
      by (simp add: cleanup_body_def)
    from clean_after_record_frame[OF this] Pair show ?thesis
      by (cases r) (auto simp: catch_def emit_sel)
  qed
qed

lemma cleanup_stage_trace:
  "\<exists>tr. trace (catch DEL (cleanup_body cfg f q nc s)) = trace s @ tr \<and> tr \<noteq> [] \<and>
        list_all is_cleanup_event tr"
proof (cases "cleanup_body cfg f q nc s")
  case (Pair r t)
  show ?thesis
  proof (cases nc)
    case None
    with Pair show ?thesis
      by (auto simp: cleanup_body_def catch_def emit_sel)
  next
    case (Some n)
    with Pair have "clean_after_record cfg f q n s = (r, t)"
      by (simp add: cleanup_body_def)
    from clean_after_record_frame[OF this] Pair show ?thesis
      by (cases r) (auto simp: catch_def emit_sel)
  qed
qed

lemma cleanup_stage_quiet:
  "ipfs_calls (new_events s (catch DEL (cleanup_body cfg f q nc s))) = []"
  "popen_calls (new_events s (catch DEL (cleanup_body cfg f q nc s))) = []"
proof -
  obtain tr where tr: "trace (catch DEL (cleanup_body cfg f q nc s)) = trace s @ tr"
    "list_all is_cleanup_event tr"
    using cleanup_stage_trace[of cfg f q nc s] by blast
  note q = cleanup_events_quiet[OF tr(2)] new_events_append[OF tr(1)]
  show "ipfs_calls (new_events s (catch DEL (cleanup_body cfg f q nc s))) = []"
    "popen_calls (new_events s (catch DEL (cleanup_body cfg f q nc s))) = []"
    using q by simp_all
qed

text \<open>
  With the intro flag on, the cleanup removes the working file, then the QR file, then tries the
  working file a second time under its other name; the first failure ends it.
\<close>

lemma clean_after_record_fs:
  assumes "cfg_get cfg ''intro'' ''enable'' = Inr vi" and "truthy vi"
  shows "fs (catch DEL (cleanup_body cfg f q (Some f) s)) =
     (if fs s f = Some RegularFile
      then (if fs s q = Some RegularFile then (fs s)(f := None, q := None) else (fs s)(f := None))
      else fs s)"
  using assms
  by (auto simp: cleanup_body_def clean_after_record_def catch_def os_remove_def emit_sel emit_def
      split: option.splits node.splits)

subsection \<open>The ledger stage\<close>

lemma datalog_stage_frame:
  "ipfs_hash (catch LED (datalog_body env cfg s)) = ipfs_hash s \<and>
   fs (catch LED (datalog_body env cfg s)) = fs s \<and>
   threads (catch LED (datalog_body env cfg s)) = threads s"
  by (auto simp: catch_def datalog_body_def RobonomicsWorker_post_def emit_sel
      split: sum.splits option.splits)

lemma datalog_stage_trace:
  "\<exists>tr. trace (catch LED (datalog_body env cfg s)) = trace s @ tr \<and>
        ipfs_calls tr = [] \<and> filter is_concat_event tr = [] \<and> filter is_cleanup_event tr = [] \<and>
        length (popen_calls tr) \<le> 1 \<and> (ipfs_hash s = None \<longrightarrow> popen_calls tr = [])"
  by (auto simp: catch_def datalog_body_def RobonomicsWorker_post_def emit_sel
      split: sum.splits option.splits)

lemma datalog_stage_unset:
  assumes "ipfs_hash s = None"
  shows "\<exists>tr. trace (catch LED (datalog_body env cfg s)) = trace s @ tr \<and> popen_calls tr = []"
  using datalog_stage_trace[of env cfg s] assms by blast

lemma datalog_stage_ok:
  assumes "RobonomicsWorker_init cfg = Inr w"
    and "sec_get w ''path_to_robonomics_file'' = Inr (PStr p)"
    and "sec_get w ''remote'' = Inr (PStr r)"
    and "cfg_get cfg ''camera'' ''key'' = Inr (PStr k)"
    and "ipfs_hash s = Some h"
  shows "\<exists>tr. trace (catch LED (datalog_body env cfg s)) = trace s @ tr \<and>
     popen_calls tr = [''echo '' @ [CHR 0x22] @ h @ [CHR 0x22] @ '' | '' @ p
                       @ '' io write datalog '' @ r @ '' -s '' @ k]"
  using assms
  by (auto simp: catch_def datalog_body_def RobonomicsWorker_post_def str_add_def emit_sel
      split: sum.splits)

lemma scenario_lookups:
  "cfg_get (scenario_config p r k) ''intro'' ''enable'' = Inr (PBool False)"
  "cfg_get (scenario_config p r k) ''external_io'' ''enable'' = Inr (PBool True)"
  "cfg_get (scenario_config p r k) ''pinata'' ''enable'' = Inr (PBool False)"
  "cfg_get (scenario_config p r k) ''general'' ''delete_after_record'' = Inr (PBool False)"
  "cfg_get (scenario_config p r k) ''datalog'' ''enable'' = Inr (PBool True)"
  "cfg_get (scenario_config p r k) ''camera'' ''key'' = Inr (PStr k)"
  "RobonomicsWorker_init (scenario_config p r k) =
     Inr [''path_to_robonomics_file'' \<mapsto> PStr p, ''remote'' \<mapsto> PStr r]"
  by (simp_all add: scenario_config_def cfg_get_def sec_get_def RobonomicsWorker_init_def)

subsection \<open>The cleanup stage inside send\<close>

lemma filter_singleton_notin:
  assumes "filter P xs = [y]" and "P x" and "x \<noteq> y"
  shows "x \<notin> set xs"
proof
  assume "x \<in> set xs"
  with assms(2) have "x \<in> set (filter P xs)" by simp
  with assms(1,3) show False by simp
qed

lemma filter_hd_in:
  assumes "filter P xs = y # ys"
  shows "y \<in> set xs"
proof -
  have "y \<in> set (filter P xs)" by (simp add: assms)
  then show ?thesis by simp
qed

text \<open>Without the intro branch the call of line 96 fails before it is made.\<close>

lemma cleanup_stage_intro_off:
  "catch DEL (cleanup_body cfg f q None s) =
     emit (LogError DEL (UnboundLocalError ''non_concatenated_filename'')) s"
  by (simp add: catch_def cleanup_body_def)

lemma cleanup_stage_intro_on:
  assumes "cfg_get cfg ''intro'' ''enable'' = Inr vi" and "truthy vi"
  shows "trace (catch DEL (cleanup_body cfg f q (Some f) s)) =
           trace s @ [LogInfo ''Removing files'', LogError DEL (cleanup_error f q (fs s))]"
  using assms
  by (auto simp: cleanup_body_def clean_after_record_def catch_def os_remove_def emit_def
      cleanup_error_def remove_error_def split: option.splits node.splits)

lemma publish_opt_trace:
  "\<exists>tr. trace (if b then catch PUB (publish_body env cfg f k s) else s) = trace s @ tr \<and>
        filter is_cleanup_event tr = []"
proof (cases b)
  case True
  obtain tr where "trace (catch PUB (publish_body env cfg f k s)) = trace s @ IpfsAdd f # tr"
    "filter is_cleanup_event tr = []"
    using publish_stage_trace[of env cfg f k s] by blast
  with True show ?thesis by (intro exI[of _ "IpfsAdd f # tr"]) simp
next
  case False
  then show ?thesis by (intro exI[of _ "[]"]) simp
qed

text \<open>
  What the cleanup stage of a run of \<^verbatim>\<open>send\<close> logs and what it leaves on disk, when
  delete_after_record is on and a QR path is given.
\<close>

lemma send_cleanup_outcome:
  assumes "flags_present cfg" and "flag_on cfg ''general'' ''delete_after_record''" and "q \<noteq> []"
  shows "filter is_cleanup_event (new_events s (snd (send env cfg f k q s))) =
           (if flag_on cfg ''intro'' ''enable''
            then [LogInfo ''Removing files'', LogError DEL (cleanup_error f q (fs s))]
            else [LogError DEL (UnboundLocalError ''non_concatenated_filename'')])"
    and "fs (snd (send env cfg f k q s)) =
           (if flag_on cfg ''intro'' ''enable''
            then (if fs s f = Some RegularFile
                  then (if fs s q = Some RegularFile then (fs s)(f := None, q := None)
                        else (fs s)(f := None))
                  else fs s)
            else fs s)"
proof -
  from assms(1) obtain vi ve vd vl where v:
    "cfg_get cfg ''intro'' ''enable'' = Inr vi"
    "cfg_get cfg ''external_io'' ''enable'' = Inr ve"
    "cfg_get cfg ''general'' ''delete_after_record'' = Inr vd"
    "cfg_get cfg ''datalog'' ''enable'' = Inr vl"
    by (rule flags_presentD)
  from assms(2) v(3) have vd: "truthy vd" by (simp add: flag_on_eq)
  define nc where "nc = (if truthy vi then Some f else None)"
  define s1 where "s1 = (if truthy ve then catch PUB (publish_body env cfg f k s) else s)"
  define s2 where "s2 = catch DEL (cleanup_body cfg f q nc s1)"
  define s3 where "s3 = catch LED (datalog_body env cfg s2)"
  define ev where "ev = (if truthy vi
      then [LogInfo ''Removing files'', LogError DEL (cleanup_error f q (fs s))]
      else [LogError DEL (UnboundLocalError ''non_concatenated_filename'')])"
  have send: "snd (send env cfg f k q s) = (if truthy vl \<and> truthy ve then s3 else s2)"
    by (simp add: send_unfold[OF v] Let_def vd assms(3) s1_def s2_def s3_def nc_def)
  obtain tr1 where tr1: "trace s1 = trace s @ tr1" "filter is_cleanup_event tr1 = []"
    using publish_opt_trace[of "truthy ve" env cfg f k s] unfolding s1_def by blast
  have f1: "fs s1 = fs s"
    by (simp add: s1_def publish_stage_frame)
  have t2: "trace s2 = trace s1 @ ev"
  proof (cases "truthy vi")
    case True
    then show ?thesis
      using cleanup_stage_intro_on[OF v(1) True, of f q s1]
      by (simp add: s2_def nc_def ev_def f1)
  next
    case False
    then show ?thesis
      by (simp add: s2_def nc_def ev_def cleanup_stage_intro_off emit_sel)
  qed
  have f2: "fs s2 = (if truthy vi
            then (if fs s f = Some RegularFile
                  then (if fs s q = Some RegularFile then (fs s)(f := None, q := None)
                        else (fs s)(f := None))
                  else fs s)
            else fs s)"
  proof (cases "truthy vi")
    case True
    then show ?thesis
      using clean_after_record_fs[OF v(1) True, of f q s1]
      by (simp add: s2_def nc_def f1)
  next
    case False
    then show ?thesis
      by (simp add: s2_def nc_def cleanup_stage_intro_off emit_sel f1)
  qed
  obtain tr3 where tr3: "trace s3 = trace s2 @ tr3" "filter is_cleanup_event tr3 = []"
    using datalog_stage_trace[of env cfg s2] unfolding s3_def by blast
  have f3: "fs s3 = fs s2"
    by (simp add: s3_def datalog_stage_frame)
  have n2: "new_events s s2 = tr1 @ ev"
    by (rule new_events_append) (simp add: t2 tr1(1))
  have n3: "new_events s s3 = tr1 @ ev @ tr3"
    by (rule new_events_append) (simp add: tr3(1) t2 tr1(1))
  have e: "filter is_cleanup_event ev = ev"
    by (simp add: ev_def)
  show "filter is_cleanup_event (new_events s (snd (send env cfg f k q s))) =
           (if flag_on cfg ''intro'' ''enable''
            then [LogInfo ''Removing files'', LogError DEL (cleanup_error f q (fs s))]
            else [LogError DEL (UnboundLocalError ''non_concatenated_filename'')])"
    using tr1(2) tr3(2) e by (simp add: send n2 n3 flag_on_eq[OF v(1)] ev_def[symmetric])
  show "fs (snd (send env cfg f k q s)) =
           (if flag_on cfg ''intro'' ''enable''
            then (if fs s f = Some RegularFile
                  then (if fs s q = Some RegularFile then (fs s)(f := None, q := None)
                        else (fs s)(f := None))
                  else fs s)
            else fs s)"
    by (simp add: send f3 f2 flag_on_eq[OF v(1)])
qed

text \<open>Everything needed to run \<^verbatim>\<open>send\<close> on a concrete input.\<close>

lemmas run_defs = send_def cfg_get_def sec_get_def catch_def publish_body_def IpfsWorker_post_def
  PinataWorker_init_def PinataWorker_post_def cleanup_body_def clean_after_record_def os_remove_def
  datalog_body_def RobonomicsWorker_init_def RobonomicsWorker_post_def str_add_def emit_def
  spawn_def ExternalIoGateway_init_def new_events_def flags_present_def flag_on_def Let_def
  example_config_def stub_env_def flaky_env_def offline_env_def

section \<open>Return value of send\<close>

text \<open>
  Claim C1. With external_io enabled and a storage client that returns hash \<open>H\<close> for the file,
  \<^verbatim>\<open>send\<close> is claimed to return \<open>H\<close> whatever the other flags are, datalog.enable in
  particular. The code stores \<open>H\<close> in the gateway whatever the pinning and ledger stages do, but
  its \<^verbatim>\<open>return self.ipfs_hash\<close> sits inside the datalog branch: the method returns \<open>H\<close>
  when datalog.enable is on and \<^verbatim>\<open>None\<close> when it is off.
\<close>

theorem send_returns_hash_only_with_datalog:
  assumes "flags_present cfg" and "flag_on cfg ''external_io'' ''enable''"
    and "ipfs_add env f = Inr H"
  shows "fst (send env cfg f k q s) =
           Inr (if flag_on cfg ''datalog'' ''enable'' then Some H else None) \<and>
         ipfs_hash (snd (send env cfg f k q s)) = Some H"
proof -
  from assms(1) obtain vi ve vd vl where v:
    "cfg_get cfg ''intro'' ''enable'' = Inr vi"
    "cfg_get cfg ''external_io'' ''enable'' = Inr ve"
    "cfg_get cfg ''general'' ''delete_after_record'' = Inr vd"
    "cfg_get cfg ''datalog'' ''enable'' = Inr vl"
    by (rule flags_presentD)
  from assms(2) v(2) have ve: "truthy ve" by (simp add: flag_on_eq)
  show ?thesis
    by (simp add: send_unfold[OF v] Let_def ve flag_on_eq[OF v(4)] datalog_stage_frame
        cleanup_stage_frame publish_stage_ok[OF assms(3)])
qed

text \<open>
  The failing input: intro, pinata, datalog and delete_after_record off, external_io on, the node
  answering \<^verbatim>\<open>Qm123\<close>. The hash is stored and \<^verbatim>\<open>None\<close> is returned.
\<close>

theorem send_returns_hash_only_with_datalog_witness:
  "flags_present (example_config False True False False False) \<and>
   flag_on (example_config False True False False False) ''external_io'' ''enable'' \<and>
   ipfs_add stub_env ''video.mp4'' = Inr ''Qm123'' \<and>
   fst (send stub_env (example_config False True False False False) ''video.mp4'' [] []
          (ExternalIoGateway_init Map.empty)) = Inr None \<and>
   ipfs_hash (snd (send stub_env (example_config False True False False False) ''video.mp4'' [] []
          (ExternalIoGateway_init Map.empty))) = Some ''Qm123''"
proof -
  let ?c = "example_config False True False False False"
  have h: "flags_present ?c" "flag_on ?c ''external_io'' ''enable''"
    "ipfs_add stub_env ''video.mp4'' = Inr ''Qm123''"
    "\<not> flag_on ?c ''datalog'' ''enable''"
    by (simp_all add: flags_present_def flag_on_def cfg_get_def sec_get_def example_config_def
        stub_env_def)
  from send_returns_hash_only_with_datalog[OF h(1,2,3), of "[]" "[]"
      "ExternalIoGateway_init Map.empty"] h
  show ?thesis by simp
qed

section \<open>The ledger worker and the unset hash\<close>

text \<open>
  Claim C2. \<^verbatim>\<open>RobonomicsWorker.post\<close> called while the gateway's hash is unset raises
  \<^verbatim>\<open>ValueError\<close> at once, for every worker section and every configuration, and leaves
  the state as it was: no shell process is started, so the ledger client is not invoked.
\<close>

theorem post_without_hash_fails_fast:
  "ipfs_hash s = None \<Longrightarrow>
   RobonomicsWorker_post env wcfg cfg s = (Some (ValueError (star ''ipfs_hash is None'')), s) \<and>
   popen_calls (new_events s (snd (RobonomicsWorker_post env wcfg cfg s))) = []"
  by (simp add: RobonomicsWorker_post_def new_events_self)

theorem post_without_hash_fails_fast_witness:
  "ipfs_hash (ExternalIoGateway_init Map.empty) = None \<and>
   RobonomicsWorker_post stub_env
       [''path_to_robonomics_file'' \<mapsto> PStr ''./robonomics'', ''remote'' \<mapsto> PStr []]
       (example_config False True False True False) (ExternalIoGateway_init Map.empty) =
     (Some (ValueError (star ''ipfs_hash is None'')), ExternalIoGateway_init Map.empty)"
proof -
  have h: "ipfs_hash (ExternalIoGateway_init Map.empty) = None"
    by (simp add: ExternalIoGateway_init_def)
  from post_without_hash_fails_fast[OF h] h show ?thesis by simp
qed

section \<open>A failing storage client\<close>

text \<open>
  Claim C3. When the storage client raises, \<^verbatim>\<open>send\<close> is claimed to complete without
  raising, to log the error, to attempt the cleanup stage all the same when delete_after_record is
  set and a QR path was supplied, and to return \<^verbatim>\<open>None\<close>; more generally no failure of
  a stage leaves \<^verbatim>\<open>send\<close>. With the four flags present no exception leaves
  \<^verbatim>\<open>send\<close>. On a gateway whose hash is unset, as the constructor leaves it, with
  external_io enabled and a storage client that raises \<open>e\<close>, \<^verbatim>\<open>send\<close> returns
  \<^verbatim>\<open>None\<close>, logs \<open>e\<close> through the publication handler and starts no ledger process.
  The cleanup is carried out only when intro.enable is on: then
  \<^verbatim>\<open>clean_after_record\<close> runs (its first action is the record
  \<^verbatim>\<open>Removing files\<close>) and removes the files in order. With intro.enable off, line 96 reads
  \<^verbatim>\<open>non_concatenated_filename\<close>, which only the intro branch binds: the call of
  \<^verbatim>\<open>clean_after_record\<close> is never made and the disk is left as it was.
\<close>

theorem send_storage_failure_outcome:
  assumes "flags_present cfg"
  shows "\<not> isl (fst (send env cfg f k q s)) \<and>
     (flag_on cfg ''external_io'' ''enable'' \<and> ipfs_add env f = Inl e \<and> ipfs_hash s = None \<longrightarrow>
        fst (send env cfg f k q s) = Inr None \<and>
        LogError PUB e \<in> set (new_events s (snd (send env cfg f k q s))) \<and>
        popen_calls (new_events s (snd (send env cfg f k q s))) = [] \<and>
        (flag_on cfg ''general'' ''delete_after_record'' \<and> q \<noteq> [] \<longrightarrow>
           (if flag_on cfg ''intro'' ''enable''
            then LogInfo ''Removing files'' \<in> set (new_events s (snd (send env cfg f k q s))) \<and>
                 fs (snd (send env cfg f k q s)) =
                   (if fs s f = Some RegularFile
                    then (if fs s q = Some RegularFile then (fs s)(f := None, q := None)
                          else (fs s)(f := None))
                    else fs s)
            else LogInfo ''Removing files'' \<notin> set (new_events s (snd (send env cfg f k q s))) \<and>
                 fs (snd (send env cfg f k q s)) = fs s)))"
proof (intro conjI impI)
  show "\<not> isl (fst (send env cfg f k q s))"
    using assms by (simp add: send_raises_iff)
next
  assume a: "flag_on cfg ''external_io'' ''enable'' \<and> ipfs_add env f = Inl e \<and> ipfs_hash s = None"
  from assms obtain vi ve vd vl where v:
    "cfg_get cfg ''intro'' ''enable'' = Inr vi"
    "cfg_get cfg ''external_io'' ''enable'' = Inr ve"
    "cfg_get cfg ''general'' ''delete_after_record'' = Inr vd"
    "cfg_get cfg ''datalog'' ''enable'' = Inr vl"
    by (rule flags_presentD)
  from a v(2) have ve: "truthy ve" by (simp add: flag_on_eq)
  define nc where "nc = (if truthy vi then Some f else None)"
  define s1 where "s1 = emit (LogError PUB e) (emit (IpfsAdd f) s)"
  define s2 where
    "s2 = (if truthy vd \<and> q \<noteq> [] then catch DEL (cleanup_body cfg f q nc s1) else s1)"
  define s3 where "s3 = catch LED (datalog_body env cfg s2)"
  have send: "send env cfg f k q s =
      (if truthy vl then (Inr (ipfs_hash s3), s3) else (Inr None, s2))"
    using a
    by (simp add: send_unfold[OF v] Let_def ve publish_stage_fail s1_def s2_def s3_def nc_def)
  have t1: "trace s1 = trace s @ [IpfsAdd f, LogError PUB e]" and h1: "ipfs_hash s1 = None"
    using a by (simp_all add: s1_def emit_sel)
  have h2: "ipfs_hash s2 = None"
    using h1 by (simp add: s2_def cleanup_stage_frame)
  have "\<exists>tr2. trace s2 = trace s1 @ tr2 \<and> list_all is_cleanup_event tr2"
  proof (cases "truthy vd \<and> q \<noteq> []")
    case True
    then have "s2 = catch DEL (cleanup_body cfg f q nc s1)" unfolding s2_def by (rule if_P)
    then show ?thesis
      using cleanup_stage_trace[of cfg f q nc s1] by auto
  next
    case False
    then have "s2 = s1" unfolding s2_def by (rule if_not_P)
    then show ?thesis by (intro exI[of _ "[]"]) simp
  qed
  then obtain tr2 where tr2: "trace s2 = trace s1 @ tr2" "list_all is_cleanup_event tr2"
    by blast
  obtain tr3 where tr3: "trace s3 = trace s2 @ tr3" "popen_calls tr3 = []"
    using datalog_stage_unset[OF h2, of env cfg] unfolding s3_def by blast
  have n2: "new_events s s2 = [IpfsAdd f, LogError PUB e] @ tr2"
    by (rule new_events_append) (simp add: tr2(1) t1)
  have n3: "new_events s s3 = [IpfsAdd f, LogError PUB e] @ tr2 @ tr3"
    by (rule new_events_append) (simp add: tr3(1) tr2(1) t1)
  have p2: "popen_calls tr2 = []"
    using cleanup_events_quiet[OF tr2(2)] by simp
  show "fst (send env cfg f k q s) = Inr None"
    by (simp add: send s3_def datalog_stage_frame h2)
  show "LogError PUB e \<in> set (new_events s (snd (send env cfg f k q s)))"
    by (simp add: send n2 n3)
  show "popen_calls (new_events s (snd (send env cfg f k q s))) = []"
    by (simp add: send n2 n3 popen_calls_append p2 tr3(2))
  assume d: "flag_on cfg ''general'' ''delete_after_record'' \<and> q \<noteq> []"
  then have d1: "flag_on cfg ''general'' ''delete_after_record''" and d2: "q \<noteq> []"
    by simp_all
  note out = send_cleanup_outcome[OF assms d1 d2, where s = s and env = env and f = f and k = k]
  show "if flag_on cfg ''intro'' ''enable''
        then LogInfo ''Removing files'' \<in> set (new_events s (snd (send env cfg f k q s))) \<and>
             fs (snd (send env cfg f k q s)) =
               (if fs s f = Some RegularFile
                then (if fs s q = Some RegularFile then (fs s)(f := None, q := None)
                      else (fs s)(f := None))
                else fs s)
        else LogInfo ''Removing files'' \<notin> set (new_events s (snd (send env cfg f k q s))) \<and>
             fs (snd (send env cfg f k q s)) = fs s"
  proof (cases "flag_on cfg ''intro'' ''enable''")
    case True
    with out(1) have "filter is_cleanup_event (new_events s (snd (send env cfg f k q s))) =
        LogInfo ''Removing files'' # [LogError DEL (cleanup_error f q (fs s))]"
      by simp
    then have "LogInfo ''Removing files'' \<in> set (new_events s (snd (send env cfg f k q s)))"
      by (rule filter_hd_in)
    with True out(2) show ?thesis by simp
  next
    case False
    with out(1) have "filter is_cleanup_event (new_events s (snd (send env cfg f k q s))) =
        [LogError DEL (UnboundLocalError ''non_concatenated_filename'')]"
      by simp
    then have "LogInfo ''Removing files'' \<notin> set (new_events s (snd (send env cfg f k q s)))"
      by (rule filter_singleton_notin) simp_all
    with False out(2) show ?thesis by simp
  qed
qed

text \<open>
  The failing input: a fresh gateway, intro off, external_io, datalog and delete_after_record on,
  the node unreachable, the recorded file and the QR file on disk. \<^verbatim>\<open>send\<close> returns
  \<^verbatim>\<open>None\<close> and logs the storage error, but \<^verbatim>\<open>clean_after_record\<close> is not
  called and both files are still there.
\<close>

theorem send_storage_failure_outcome_witness:
  "flags_present (example_config False True False True True) \<and>
   flag_on (example_config False True False True True) ''external_io'' ''enable'' \<and>
   ipfs_add offline_env ''video.mp4'' = Inl (CollaboratorError ''StorageError'') \<and>
   ipfs_hash (ExternalIoGateway_init [''video.mp4'' \<mapsto> RegularFile, ''qr.png'' \<mapsto> RegularFile])
     = None \<and>
   flag_on (example_config False True False True True) ''general'' ''delete_after_record'' \<and>
   ''qr.png'' \<noteq> [] \<and>
   \<not> flag_on (example_config False True False True True) ''intro'' ''enable'' \<and>
   fst (send offline_env (example_config False True False True True) ''video.mp4'' [] ''qr.png''
          (ExternalIoGateway_init [''video.mp4'' \<mapsto> RegularFile, ''qr.png'' \<mapsto> RegularFile]))
     = Inr None \<and>
   LogError PUB (CollaboratorError ''StorageError'')
     \<in> set (new_events
               (ExternalIoGateway_init [''video.mp4'' \<mapsto> RegularFile, ''qr.png'' \<mapsto> RegularFile])
               (snd (send offline_env (example_config False True False True True) ''video.mp4'' []
                  ''qr.png''
                  (ExternalIoGateway_init
                     [''video.mp4'' \<mapsto> RegularFile, ''qr.png'' \<mapsto> RegularFile])))) \<and>
   LogInfo ''Removing files''
     \<notin> set (new_events
               (ExternalIoGateway_init [''video.mp4'' \<mapsto> RegularFile, ''qr.png'' \<mapsto> RegularFile])
               (snd (send offline_env (example_config False True False True True) ''video.mp4'' []
                  ''qr.png''
                  (ExternalIoGateway_init
                     [''video.mp4'' \<mapsto> RegularFile, ''qr.png'' \<mapsto> RegularFile])))) \<and>
   fs (snd (send offline_env (example_config False True False True True) ''video.mp4'' [] ''qr.png''
          (ExternalIoGateway_init [''video.mp4'' \<mapsto> RegularFile, ''qr.png'' \<mapsto> RegularFile])))
     ''qr.png'' = Some RegularFile \<and>
   fs (snd (send offline_env (example_config False True False True True) ''video.mp4'' [] ''qr.png''
          (ExternalIoGateway_init [''video.mp4'' \<mapsto> RegularFile, ''qr.png'' \<mapsto> RegularFile])))
     ''video.mp4'' = Some RegularFile"
proof -
  let ?c = "example_config False True False True True"
  let ?s = "ExternalIoGateway_init [''video.mp4'' \<mapsto> RegularFile, ''qr.png'' \<mapsto> RegularFile]"
  have h: "flags_present ?c" "flag_on ?c ''external_io'' ''enable''"
    "ipfs_add offline_env ''video.mp4'' = Inl (CollaboratorError ''StorageError'')"
    "ipfs_hash ?s = None"
    "flag_on ?c ''general'' ''delete_after_record''"
    "\<not> flag_on ?c ''intro'' ''enable''"
    by (simp_all add: flags_present_def flag_on_def cfg_get_def sec_get_def example_config_def
        offline_env_def ExternalIoGateway_init_def)
  from send_storage_failure_outcome[OF h(1), of offline_env "''video.mp4''" "[]" "''qr.png''"
      ?s "CollaboratorError ''StorageError''"] h
  show ?thesis by (simp add: ExternalIoGateway_init_def)
qed

text \<open>
  The hypothesis on the hash matters. The hash is an attribute of the gateway that only the
  constructor sets to \<^verbatim>\<open>None\<close>: if the same gateway is used for a second
  \<^verbatim>\<open>send\<close> whose storage call fails, the hash of the first file is still there, passes
  the test of \<^verbatim>\<open>RobonomicsWorker.post\<close> and is returned.
\<close>

lemma reused_gateway_keeps_previous_hash:
  "ipfs_add flaky_env ''b.mp4'' = Inl (CollaboratorError ''StorageError'') \<and>
   fst (send flaky_env (example_config False True False True False) ''b.mp4'' [] []
         (snd (send flaky_env (example_config False True False True False) ''a.mp4'' [] []
                (ExternalIoGateway_init Map.empty)))) = Inr (Some ''Qm1'')"
  by (simp add: run_defs)

section \<open>External publication disabled\<close>

text \<open>
  Claim C4. When external_io.enable is present and false as a condition, \<^verbatim>\<open>send\<close>
  hands no file to the IPFS node, starts no pinning thread and no ledger process, and leaves the
  gateway's hash as it was, whatever datalog.enable is. It returns \<^verbatim>\<open>None\<close> when the
  other three flags are present too; otherwise the only way out is the \<^verbatim>\<open>KeyError\<close> of
  the missing flag.
\<close>

theorem send_disabled_invokes_no_worker:
  assumes "cfg_get cfg ''external_io'' ''enable'' = Inr ve" and "\<not> truthy ve"
  shows "ipfs_calls (new_events s (snd (send env cfg f k q s))) = [] \<and>
         popen_calls (new_events s (snd (send env cfg f k q s))) = [] \<and>
         threads (snd (send env cfg f k q s)) = threads s \<and>
         ipfs_hash (snd (send env cfg f k q s)) = ipfs_hash s \<and>
         (if flags_present cfg then fst (send env cfg f k q s) = Inr None
          else \<exists>key. fst (send env cfg f k q s) = Inl (KeyError key))"
  using assms
  by (auto simp: send_def Let_def flags_present_def cleanup_stage_quiet cleanup_stage_frame
      new_events_self cfg_get_def sec_get_def split: sum.splits option.splits)

theorem send_disabled_invokes_no_worker_witness:
  "cfg_get (example_config False False True True True) ''external_io'' ''enable'' =
     Inr (PBool False) \<and>
   \<not> truthy (PBool False) \<and>
   flags_present (example_config False False True True True) \<and>
   fst (send stub_env (example_config False False True True True) ''video.mp4'' ''kw'' ''qr.png''
          (ExternalIoGateway_init Map.empty)) = Inr None \<and>
   ipfs_calls (new_events (ExternalIoGateway_init Map.empty)
     (snd (send stub_env (example_config False False True True True) ''video.mp4'' ''kw'' ''qr.png''
          (ExternalIoGateway_init Map.empty)))) = [] \<and>
   popen_calls (new_events (ExternalIoGateway_init Map.empty)
     (snd (send stub_env (example_config False False True True True) ''video.mp4'' ''kw'' ''qr.png''
          (ExternalIoGateway_init Map.empty)))) = [] \<and>
   threads (snd (send stub_env (example_config False False True True True) ''video.mp4'' ''kw''
          ''qr.png'' (ExternalIoGateway_init Map.empty))) = []"
proof -
  let ?c = "example_config False False True True True"
  have h: "cfg_get ?c ''external_io'' ''enable'' = Inr (PBool False)" "\<not> truthy (PBool False)"
    "flags_present ?c" "threads (ExternalIoGateway_init Map.empty) = []"
    by (simp_all add: flags_present_def cfg_get_def sec_get_def example_config_def
        ExternalIoGateway_init_def)
  from send_disabled_invokes_no_worker[OF h(1,2), of "ExternalIoGateway_init Map.empty" stub_env
      "''video.mp4''" "''kw''" "''qr.png''"] h
  show ?thesis by simp
qed

section \<open>The intro stage\<close>

text \<open>
  Claim C5. With intro.enable on, \<^verbatim>\<open>send\<close> is claimed to call the media preprocessor
  and to go on with the renamed file. The code's intro branch only assigns
  \<^verbatim>\<open>filename = filename\<close>: a run of \<^verbatim>\<open>send\<close> makes none of the log records
  or file writes of \<^verbatim>\<open>concatenate\<close> (whose first action is always the record
  \<^verbatim>\<open>Concatenating videos\<close>), and the file handed to the IPFS node is the original name,
  which is never the name \<^verbatim>\<open>concatenate\<close> would return.
\<close>

theorem send_never_concatenates:
  assumes "flags_present cfg" and "flag_on cfg ''intro'' ''enable''"
    and "flag_on cfg ''external_io'' ''enable''"
  shows "filter is_concat_event (new_events s (snd (send env cfg f k q s))) = [] \<and>
         ipfs_calls (new_events s (snd (send env cfg f k q s))) = [f] \<and>
         concat_filename f \<noteq> f \<and>
         LogInfo ''Concatenating videos'' \<in> set (new_events s (snd (concatenate env d f s)))"
proof -
  from assms(1) obtain vi ve vd vl where v:
    "cfg_get cfg ''intro'' ''enable'' = Inr vi"
    "cfg_get cfg ''external_io'' ''enable'' = Inr ve"
    "cfg_get cfg ''general'' ''delete_after_record'' = Inr vd"
    "cfg_get cfg ''datalog'' ''enable'' = Inr vl"
    by (rule flags_presentD)
  from assms(2,3) v have t: "truthy vi" "truthy ve" by (simp_all add: flag_on_eq)
  define s1 where "s1 = catch PUB (publish_body env cfg f k s)"
  define s2 where
    "s2 = (if truthy vd \<and> q \<noteq> [] then catch DEL (cleanup_body cfg f q (Some f) s1) else s1)"
  define s3 where "s3 = catch LED (datalog_body env cfg s2)"
  have send: "snd (send env cfg f k q s) = (if truthy vl then s3 else s2)"
    by (simp add: send_unfold[OF v] Let_def t s1_def s2_def s3_def)
  obtain tr1 where tr1: "trace s1 = trace s @ IpfsAdd f # tr1"
    "ipfs_calls tr1 = []" "filter is_concat_event tr1 = []"
    using publish_stage_trace[of env cfg f k s] unfolding s1_def by blast
  have "\<exists>tr2. trace s2 = trace s1 @ tr2 \<and> list_all is_cleanup_event tr2"
  proof (cases "truthy vd \<and> q \<noteq> []")
    case True
    then have "s2 = catch DEL (cleanup_body cfg f q (Some f) s1)" unfolding s2_def by (rule if_P)
    then show ?thesis
      using cleanup_stage_trace[of cfg f q "Some f" s1] by auto
  next
    case False
    then have "s2 = s1" unfolding s2_def by (rule if_not_P)
    then show ?thesis by (intro exI[of _ "[]"]) simp
  qed
  then obtain tr2 where tr2: "trace s2 = trace s1 @ tr2" "list_all is_cleanup_event tr2"
    by blast
  note q2 = cleanup_events_quiet[OF tr2(2)]
  obtain tr3 where tr3: "trace s3 = trace s2 @ tr3"
    "ipfs_calls tr3 = []" "filter is_concat_event tr3 = []"
    using datalog_stage_trace[of env cfg s2] unfolding s3_def by blast
  have n2: "new_events s s2 = IpfsAdd f # tr1 @ tr2"
    by (rule new_events_append) (simp add: tr2(1) tr1(1))
  have n3: "new_events s s3 = IpfsAdd f # tr1 @ tr2 @ tr3"
    by (rule new_events_append) (simp add: tr3(1) tr2(1) tr1(1))
  obtain trc where
    "trace (snd (concatenate env d f s)) = trace s @ LogInfo ''Concatenating videos'' # trc"
    using concatenate_logs by blast
  then have nc: "new_events s (snd (concatenate env d f s)) = LogInfo ''Concatenating videos'' # trc"
    by (rule new_events_append)
  show ?thesis
    using tr1(2,3) q2 tr3(2,3)
    by (simp add: send n2 n3 nc ipfs_calls_append concat_filename_differs)
qed

text \<open>
  The failing input: intro and external_io on, file \<^verbatim>\<open>video.mp4\<close>. The node receives
  \<^verbatim>\<open>video.mp4\<close>, not \<^verbatim>\<open>video_intro.mp4\<close>.
\<close>

theorem send_never_concatenates_witness:
  "flags_present (example_config True True False False False) \<and>
   flag_on (example_config True True False False False) ''intro'' ''enable'' \<and>
   flag_on (example_config True True False False False) ''external_io'' ''enable'' \<and>
   ipfs_calls (new_events (ExternalIoGateway_init Map.empty)
     (snd (send stub_env (example_config True True False False False) ''video.mp4'' [] []
          (ExternalIoGateway_init Map.empty)))) = [''video.mp4''] \<and>
   concat_filename ''video.mp4'' = ''video_intro.mp4''"
proof -
  let ?c = "example_config True True False False False"
  have h: "flags_present ?c" "flag_on ?c ''intro'' ''enable''"
    "flag_on ?c ''external_io'' ''enable''"
    by (simp_all add: flags_present_def flag_on_def cfg_get_def sec_get_def example_config_def)
  from send_never_concatenates[OF h, of "ExternalIoGateway_init Map.empty" stub_env
      "''video.mp4''" "[]" "[]"] h
  show ?thesis by (simp add: concat_filename_def)
qed

section \<open>The cleanup stage of send\<close>

text \<open>
  Claim C6. With delete_after_record set and a QR path given, the working file and the QR file
  are claimed not to exist after \<^verbatim>\<open>send\<close>, each deletion being guarded on its own, and
  no deletion error leaves the cleanup stage. No exception leaves \<^verbatim>\<open>send\<close> indeed, but
  what is deleted depends on intro.enable. With it off, line 96 reads the unbound
  \<^verbatim>\<open>non_concatenated_filename\<close>: the handler logs the \<^verbatim>\<open>UnboundLocalError\<close>,
  \<^verbatim>\<open>clean_after_record\<close> is never called and the disk is left as it was. With it on,
  \<^verbatim>\<open>clean_after_record\<close> removes the working file, then the QR file, under the single
  handler of \<^verbatim>\<open>send\<close>: the first removal that fails ends the cleanup and is logged, once;
  when both succeed, the third removal, of the working file again, is the one that fails.
\<close>

theorem send_cleanup_deletes_only_with_intro:
  assumes "flags_present cfg" and "flag_on cfg ''general'' ''delete_after_record''" and "q \<noteq> []"
  shows "\<not> isl (fst (send env cfg f k q s)) \<and>
     (if flag_on cfg ''intro'' ''enable''
      then fs (snd (send env cfg f k q s)) =
             (if fs s f = Some RegularFile
              then (if fs s q = Some RegularFile then (fs s)(f := None, q := None)
                    else (fs s)(f := None))
              else fs s) \<and>
           filter is_cleanup_event (new_events s (snd (send env cfg f k q s))) =
             [LogInfo ''Removing files'', LogError DEL (cleanup_error f q (fs s))]
      else fs (snd (send env cfg f k q s)) = fs s \<and>
           filter is_cleanup_event (new_events s (snd (send env cfg f k q s))) =
             [LogError DEL (UnboundLocalError ''non_concatenated_filename'')])"
  using send_cleanup_outcome[OF assms, where s = s and env = env and f = f and k = k] assms(1)
  by (simp add: send_raises_iff)

text \<open>
  The failing input: intro off, delete_after_record on, every collaborator succeeding, the
  recorded file and the QR file on disk. Both files are still there after \<^verbatim>\<open>send\<close>.
\<close>

theorem send_cleanup_deletes_only_with_intro_witness:
  "flags_present (example_config False True False False True) \<and>
   flag_on (example_config False True False False True) ''general'' ''delete_after_record'' \<and>
   ''qr.png'' \<noteq> [] \<and>
   \<not> flag_on (example_config False True False False True) ''intro'' ''enable'' \<and>
   fs (snd (send stub_env (example_config False True False False True) ''video.mp4'' [] ''qr.png''
          (ExternalIoGateway_init [''video.mp4'' \<mapsto> RegularFile, ''qr.png'' \<mapsto> RegularFile])))
     ''video.mp4'' = Some RegularFile \<and>
   fs (snd (send stub_env (example_config False True False False True) ''video.mp4'' [] ''qr.png''
          (ExternalIoGateway_init [''video.mp4'' \<mapsto> RegularFile, ''qr.png'' \<mapsto> RegularFile])))
     ''qr.png'' = Some RegularFile \<and>
   filter is_cleanup_event
     (new_events (ExternalIoGateway_init [''video.mp4'' \<mapsto> RegularFile, ''qr.png'' \<mapsto> RegularFile])
        (snd (send stub_env (example_config False True False False True) ''video.mp4'' [] ''qr.png''
           (ExternalIoGateway_init
              [''video.mp4'' \<mapsto> RegularFile, ''qr.png'' \<mapsto> RegularFile])))) =
     [LogError DEL (UnboundLocalError ''non_concatenated_filename'')]"
proof -
  let ?c = "example_config False True False False True"
  have h: "flags_present ?c" "flag_on ?c ''general'' ''delete_after_record''" "''qr.png'' \<noteq> []"
    "\<not> flag_on ?c ''intro'' ''enable''"
    by (simp_all add: flags_present_def flag_on_def cfg_get_def sec_get_def example_config_def)
  from send_cleanup_deletes_only_with_intro[OF h(1,2,3), of stub_env "''video.mp4''" "[]"
      "ExternalIoGateway_init [''video.mp4'' \<mapsto> RegularFile, ''qr.png'' \<mapsto> RegularFile]"] h
  show ?thesis by (simp add: ExternalIoGateway_init_def)
qed

section \<open>The pinning thread\<close>

text \<open>
  Claim C7. The thread started by \<^verbatim>\<open>PinataWorker.post\<close> is claimed to submit the file
  whenever both credentials are present. \<^verbatim>\<open>post\<close> itself always returns normally and
  starts one thread, but it passes \<^verbatim>\<open>args=filename\<close>, a string, so the thread calls
  \<^verbatim>\<open>_pin_to_pinata\<close> with one argument per character: the call is the intended one only
  for a one-character file name, and a \<^verbatim>\<open>TypeError\<close> inside the thread, before any
  credential is read, for every other name.
\<close>

theorem pinning_thread_spreads_filename:
  "threads (snd (PinataWorker_post wcfg filename s)) = threads s @ [Thread wcfg filename] \<and>
   fst (PinataWorker_post wcfg filename s) = None \<and>
   thread_run env (Thread wcfg filename) =
     (if length filename = 1 then pin_to_pinata env wcfg filename
      else (Some (TypeError ''_pin_to_pinata() takes 2 positional arguments''), []))"
  by (cases filename; cases "tl filename")
     (auto simp: PinataWorker_post_def spawn_sel emit_sel thread_run_def star_def)

text \<open>
  The failing input: both credentials present, file \<^verbatim>\<open>video.mp4\<close>. The thread ends with
  the \<^verbatim>\<open>TypeError\<close> and the Pinata client is never called.
\<close>

theorem pinning_thread_spreads_filename_witness:
  "thread_run stub_env
     (last (threads (snd (PinataWorker_post
        [''enable'' \<mapsto> PBool True, ''pinata_api'' \<mapsto> PStr ''key'',
         ''pinata_secret_api'' \<mapsto> PStr ''secret'']
        ''video.mp4'' (ExternalIoGateway_init Map.empty))))) =
     (Some (TypeError ''_pin_to_pinata() takes 2 positional arguments''), [])"
  using pinning_thread_spreads_filename[of "[''enable'' \<mapsto> PBool True,
         ''pinata_api'' \<mapsto> PStr ''key'', ''pinata_secret_api'' \<mapsto> PStr ''secret'']"
         "''video.mp4''" "ExternalIoGateway_init Map.empty" stub_env]
  by simp

section \<open>The datalog scenario\<close>

text \<open>
  Claim C8. For the configuration with intro off, external_io on, pinata off, datalog on and
  delete_after_record off (with string values for the ledger tool path, the remote and the signing
  key) and a storage client that returns \<^verbatim>\<open>Qm123\<close>, \<^verbatim>\<open>send\<close> returns
  \<^verbatim>\<open>Qm123\<close> and starts exactly one shell process, the ledger command line that echoes
  \<^verbatim>\<open>Qm123\<close>.
\<close>

theorem send_scenario_anchors_once:
  assumes "ipfs_add env f = Inr ''Qm123''"
  shows "fst (send env (scenario_config path remote key) f k q s) = Inr (Some ''Qm123'') \<and>
         popen_calls (new_events s (snd (send env (scenario_config path remote key) f k q s))) =
           [''echo '' @ [CHR 0x22] @ ''Qm123'' @ [CHR 0x22] @ '' | '' @ path
            @ '' io write datalog '' @ remote @ '' -s '' @ key]"
proof -
  let ?cfg = "scenario_config path remote key"
  let ?s1 = "catch PUB (publish_body env ?cfg f k s)"
  let ?s3 = "catch LED (datalog_body env ?cfg ?s1)"
  have send: "send env ?cfg f k q s = (Inr (ipfs_hash ?s3), ?s3)"
    by (simp add: send_unfold[OF scenario_lookups(1,2,4,5)] Let_def)
  have h1: "ipfs_hash ?s1 = Some ''Qm123''"
    by (rule publish_stage_ok[OF assms])
  obtain tr1 where tr1: "trace ?s1 = trace s @ IpfsAdd f # tr1" "popen_calls tr1 = []"
    using publish_stage_trace[of env ?cfg f k s] by blast
  have "sec_get [''path_to_robonomics_file'' \<mapsto> PStr path, ''remote'' \<mapsto> PStr remote]
          ''path_to_robonomics_file'' = Inr (PStr path)"
    and "sec_get [''path_to_robonomics_file'' \<mapsto> PStr path, ''remote'' \<mapsto> PStr remote]
          ''remote'' = Inr (PStr remote)"
    by (simp_all add: sec_get_def)
  from datalog_stage_ok[OF scenario_lookups(7) this scenario_lookups(6) h1, of env]
  obtain tr3 where tr3: "trace ?s3 = trace ?s1 @ tr3"
    "popen_calls tr3 = [''echo '' @ [CHR 0x22] @ ''Qm123'' @ [CHR 0x22] @ '' | '' @ path
                       @ '' io write datalog '' @ remote @ '' -s '' @ key]"
    by blast
  have "trace ?s3 = trace s @ (IpfsAdd f # tr1 @ tr3)"
    using tr1(1) tr3(1) by simp
  then have "new_events s ?s3 = IpfsAdd f # tr1 @ tr3"
    by (rule new_events_append)
  then show ?thesis
    using tr1(2) tr3(2) h1 by (simp add: send popen_calls_append datalog_stage_frame)
qed

theorem send_scenario_anchors_once_witness:
  "ipfs_add stub_env ''video.mp4'' = Inr ''Qm123'' \<and>
   fst (send stub_env (scenario_config ''./robonomics'' [] ''seed'') ''video.mp4'' [] []
          (ExternalIoGateway_init Map.empty)) = Inr (Some ''Qm123'') \<and>
   popen_calls (new_events (ExternalIoGateway_init Map.empty)
      (snd (send stub_env (scenario_config ''./robonomics'' [] ''seed'') ''video.mp4'' [] []
          (ExternalIoGateway_init Map.empty)))) =
     [''echo '' @ [CHR 0x22] @ ''Qm123'' @ [CHR 0x22]
      @ '' | ./robonomics io write datalog  -s seed'']"
proof -
  have h: "ipfs_add stub_env ''video.mp4'' = Inr ''Qm123''"
    by (simp add: stub_env_def)
  from send_scenario_anchors_once[OF h, of "''./robonomics''" "[]" "''seed''" "[]" "[]"
      "ExternalIoGateway_init Map.empty"] h
  show ?thesis by simp
qed

section \<open>Missing configuration keys\<close>

text \<open>
  Claim C10. The four flag reads of \<^verbatim>\<open>send\<close> (intro.enable, external_io.enable,
  general.delete_after_record, datalog.enable) are outside every \<^verbatim>\<open>try\<close>: an exception
  leaves \<^verbatim>\<open>send\<close> exactly when one of them is missing from the configuration, and that
  exception is a \<^verbatim>\<open>KeyError\<close>.
\<close>

theorem send_raises_key_error_iff_flag_missing:
  "isl (fst (send env cfg f k q s)) = (\<not> flags_present cfg) \<and>
   (\<exists>key. fst (send env cfg f k q s) = Inl (KeyError key)) = (\<not> flags_present cfg)"
  by (auto simp: send_def Let_def flags_present_def cfg_get_def sec_get_def
      split: sum.splits option.splits)

text \<open>A configuration without the \<^verbatim>\<open>general\<close> section: the storage stage runs, then the
  read of delete_after_record raises.\<close>

theorem send_raises_key_error_iff_flag_missing_witness:
  "\<not> flags_present config_without_general \<and>
   isl (fst (send stub_env config_without_general ''video.mp4'' [] []
          (ExternalIoGateway_init Map.empty))) \<and>
   fst (send stub_env config_without_general ''video.mp4'' [] []
          (ExternalIoGateway_init Map.empty)) = Inl (KeyError ''general'')"
proof -
  have h: "\<not> flags_present config_without_general"
    by (simp add: flags_present_def cfg_get_def sec_get_def config_without_general_def)
  have k: "fst (send stub_env config_without_general ''video.mp4'' [] []
          (ExternalIoGateway_init Map.empty)) = Inl (KeyError ''general'')"
    by (simp add: send_def cfg_get_def sec_get_def config_without_general_def Let_def)
  from send_raises_key_error_iff_flag_missing[of stub_env config_without_general
      "''video.mp4''" "[]" "[]" "ExternalIoGateway_init Map.empty"] h k
  show ?thesis by simp
qed

end
